theory Spec2Isabelle
  imports Main "HOL-Library.Word"
begin

section \<open>FishingBoat: a scale-to-zero TCP reverse proxy for containers\<close>

text \<open>
  A shallow embedding of \<^verbatim>\<open>mutexmap.go\<close> and of the control plane of
  \<^verbatim>\<open>fishingboat.go\<close> (the current version of the file, with the resource ledger).

  Conventions of the embedding.
  \<^item> Go's \<^verbatim>\<open>int\<close> is a 64-bit two's complement integer and \<^verbatim>\<open>uint\<close> a 64-bit
    unsigned one: both are \<open>64 word\<close>; a signed comparison reads the word with \<open>sint\<close>.
    Port numbers are \<open>int\<close>: the only arithmetic on them stays below \<open>65537\<close>.
  \<^item> An \<^verbatim>\<open>error\<close> value is a value of the datatype \<open>error\<close>; a \<^verbatim>\<open>nil\<close> error is
    \<open>None\<close>. A panic is an outcome of its own.
  \<^item> A mutex is synchronisation, not data: the body of each critical section is one
    function of the model, applied atomically, and the locks themselves are not fields
    of the state.
  \<^item> The container runtime, the network and the random number generator are outside
    the program: their answers during one call are the fields of an environment record
    that the call takes as an argument.
\<close>

datatype error =
    Errorf string          \<comment> \<open>an error made by \<^verbatim>\<open>fmt.Errorf\<close> in this program\<close>
  | DriverError string     \<comment> \<open>an error returned by the container runtime client\<close>
  | NumError string        \<comment> \<open>\<^verbatim>\<open>strconv.Atoi\<close> failing on the given input\<close>
  | RuntimeError string    \<comment> \<open>a run-time panic of Go itself (nil dereference, index out of range)\<close>

type_synonym go_int = "64 word"
type_synonym go_uint = "64 word"


section \<open>The keyed mutex registry (\<^verbatim>\<open>mutexmap.go\<close>)\<close>

text \<open>
  An \<^verbatim>\<open>entry\<close> carries the holder count. Its other fields are the back pointer
  \<^verbatim>\<open>mm\<close> and the \<^verbatim>\<open>key\<close>, which are never read, and the sub-lock \<^verbatim>\<open>mutex\<close>.
\<close>

record entry =
  count :: go_int

record 'k MutexMap =
  mutexmap :: "'k \<rightharpoonup> entry"

definition NewMutexMap :: "'k MutexMap" where
  "NewMutexMap = \<lparr>mutexmap = Map.empty\<rparr>"

text \<open>
  \<^verbatim>\<open>Lock\<close>: the closure run under \<^verbatim>\<open>mm.mutex\<close> finds or creates the entry and
  increments its count. The caller then acquires \<^verbatim>\<open>e.mutex\<close>, outside the closure;
  that acquisition does not touch the map.
\<close>

definition Lock_critical :: "'k \<Rightarrow> 'k MutexMap \<Rightarrow> 'k MutexMap" where
  "Lock_critical key mm =
     (let e = (case mutexmap mm key of
                 None \<Rightarrow> \<lparr>count = 0\<rparr>
               | Some e \<Rightarrow> e)
      in mm\<lparr>mutexmap := (mutexmap mm)(key \<mapsto> e\<lparr>count := count e + 1\<rparr>)\<rparr>)"

text \<open>
  \<^verbatim>\<open>Unlock\<close>: the closure run under \<^verbatim>\<open>mm.mutex\<close> panics when the key has no
  entry; otherwise it decrements the count and deletes the entry when
  \<^verbatim>\<open>e.count <= 0\<close>. Only after the closure has returned does the caller release
  \<^verbatim>\<open>e.mutex\<close>. \<open>Inl\<close> is the panic.
\<close>

definition Unlock_critical :: "'k \<Rightarrow> 'k MutexMap \<Rightarrow> error + 'k MutexMap" where
  "Unlock_critical key mm =
     (case mutexmap mm key of
        None \<Rightarrow> Inl (Errorf ''unlocking entry not found in mutexmap for key'')
      | Some e \<Rightarrow>
          (let e' = e\<lparr>count := count e - 1\<rparr>
           in if sint (count e') \<le> 0
              then Inr (mm\<lparr>mutexmap := (mutexmap mm)(key := None)\<rparr>)
              else Inr (mm\<lparr>mutexmap := (mutexmap mm)(key \<mapsto> e')\<rparr>)))"

text \<open>
  The map changes only inside the two closures, which exclude each other. Whatever
  the interleaving of the goroutines, the map is therefore the result of running the
  closures in the order in which they took \<^verbatim>\<open>mm.mutex\<close>. A call completes only if
  its closure did not panic.
\<close>

datatype 'k mm_call = LockCall 'k | UnlockCall 'k

fun mm_step :: "'k mm_call \<Rightarrow> 'k MutexMap \<Rightarrow> error + 'k MutexMap" where
  "mm_step (LockCall key) mm = Inr (Lock_critical key mm)"
| "mm_step (UnlockCall key) mm = Unlock_critical key mm"

fun mm_run :: "'k mm_call list \<Rightarrow> 'k MutexMap \<Rightarrow> error + 'k MutexMap" where
  "mm_run [] mm = Inr mm"
| "mm_run (c # cs) mm =
     (case mm_step c mm of
        Inl e \<Rightarrow> Inl e
      | Inr mm' \<Rightarrow> mm_run cs mm')"

text \<open>
  The number of holders an entry stands for: the count read as an unsigned number,
  and \<open>2 ^ 64\<close> for a count that has wrapped around to \<open>0\<close>.
\<close>

definition holders :: "go_int \<Rightarrow> int" where
  "holders c = (if c = 0 then 2 ^ 64 else uint c)"

definition mm_inv :: "'k MutexMap \<Rightarrow> 'k \<Rightarrow> int \<Rightarrow> bool" where
  "mm_inv mm key g =
     (case mutexmap mm key of
        None \<Rightarrow> 0 \<le> g
      | Some e \<Rightarrow> holders (count e) \<le> g)"


section \<open>The data model (\<^verbatim>\<open>fishingboat.go\<close>)\<close>

record Resources =
  MilliCPU :: go_int
  MemoryMi :: go_int
  GpuMemoryMi :: go_int

record PortMapping =
  ContainerPort :: int
  HostPorts :: "int list"

text \<open>
  \<^verbatim>\<open>ResourceRequest\<close> is a pointer: \<open>None\<close> is \<^verbatim>\<open>nil\<close> (the key \<^verbatim>\<open>resources\<close>
  left out of the configuration). The fields \<^verbatim>\<open>Cmd\<close>, \<^verbatim>\<open>Config\<close> and
  \<^verbatim>\<open>HostConfig\<close> are only copied into the arguments of \<^verbatim>\<open>ContainerCreate\<close>.
\<close>

record Service =
  Name :: string
  ResourceRequest :: "Resources option"
  CoolDown :: go_int
  Ports :: "PortMapping list"
  Image :: string
  PullPolicy :: string
  HostIP :: string

record ServerResourceLimits =
  Limits :: Resources

record ServicesConfig =
  ProxyIP :: string
  ServiceHostIP :: string
  ResourcesCfg :: ServerResourceLimits    \<comment> \<open>the field \<^verbatim>\<open>Resources\<close>\<close>
  Services :: "Service list"

text \<open>An instant is a number of nanoseconds on the clock of the process.\<close>

type_synonym time = int

text \<open>The calls the program issues to the container runtime, with the id or name given.\<close>

datatype driver_call =
    ContainerList string
  | ContainerRemove string
  | ImagePull string
  | ImageList
  | ContainerCreate string
  | ContainerStart string
  | ContainerInspect string
  | ContainerStop string
  | ContainerWait string

text \<open>
  The fields of \<^verbatim>\<open>Server\<close>, without its locks. \<open>Trace\<close> is not a field of the Go
  struct: it records, in order, the calls issued to the container runtime.
\<close>

record Server =
  Config :: ServicesConfig
  ServiceProxyHostPortMap :: "string \<rightharpoonup> (int \<rightharpoonup> int)"
  ServiceConnCount :: "string \<rightharpoonup> go_uint"
  ServiceKillTime :: "string \<rightharpoonup> time"
  TrackedResources :: Resources
  Trace :: "driver_call list"

text \<open>The state \<^verbatim>\<open>main\<close> builds from a configuration.\<close>

definition new_Server :: "ServicesConfig \<Rightarrow> Server" where
  "new_Server config =
     \<lparr>Config = config,
      ServiceProxyHostPortMap = Map.empty,
      ServiceConnCount = Map.empty,
      ServiceKillTime = Map.empty,
      TrackedResources = \<lparr>MilliCPU = 0, MemoryMi = 0, GpuMemoryMi = 0\<rparr>,
      Trace = []\<rparr>"

definition record_call :: "driver_call \<Rightarrow> Server \<Rightarrow> Server" where
  "record_call c s = s\<lparr>Trace := Trace s @ [c]\<rparr>"


subsection \<open>What the container runtime answers\<close>

text \<open>\<^verbatim>\<open>types.Container\<close>, as far as the program reads it.\<close>

record Container =
  c_ID :: string
  c_Names :: "string list"
  c_Image :: string
  c_State :: string

record PortBinding =
  pb_HostIP :: string
  pb_HostPort :: string

text \<open>
  \<^verbatim>\<open>types.ContainerJSON\<close>, as far as the program reads it: \<^verbatim>\<open>State.Status\<close>,
  \<^verbatim>\<open>State.Running\<close>, \<^verbatim>\<open>State.Health.Status\<close> (\<open>None\<close> when \<^verbatim>\<open>State.Health\<close> is
  \<^verbatim>\<open>nil\<close>) and \<^verbatim>\<open>HostConfig.PortBindings\<close>, a map listed here in the order in which
  the \<^verbatim>\<open>range\<close> loop visits it.
\<close>

record ContainerJSON =
  j_Status :: string
  j_Running :: bool
  j_Health :: "string option"
  j_PortBindings :: "(string \<times> PortBinding list) list"

text \<open>
  The environment of one call of \<open>LaunchContainer\<close> or \<open>StopContainer\<close>: the answer to
  each request the call can make. \<open>randInt k\<close> is the number the generator draws for
  the \<open>k\<close>-th port of the service and \<open>netListen k ip p\<close> tells whether
  \<^verbatim>\<open>net.Listen\<close> can bind \<open>ip:p\<close> at that moment; \<open>inspectReady i\<close> answers the
  \<open>i\<close>-th poll of the readiness wait and \<open>inspectHydrate\<close> the inspection that fills
  the port map. \<open>newPort\<close> is \<^verbatim>\<open>nat.NewPort("tcp", _)\<close> of the library.
\<close>

record env =
  newClient :: "error option"
  containerList :: "error + Container list"
  containerRemove :: "error option"
  imagePull :: "error option"
  imageList :: "error + string list list"
  newPort :: "int \<Rightarrow> error option"
  randInt :: "nat \<Rightarrow> nat"
  netListen :: "nat \<Rightarrow> string \<Rightarrow> int \<Rightarrow> bool"
  containerCreate :: "error + string"
  containerStart :: "error option"
  inspectReady :: "nat \<Rightarrow> error + ContainerJSON"
  inspectHydrate :: "error + ContainerJSON"
  containerStop :: "error option"
  containerWait :: "error option"

text \<open>A call returns its \<^verbatim>\<open>err\<close> result, or panics and takes the process down.\<close>

datatype outcome = Panicked error | Returned "error option"


section \<open>The port allocator: \<^verbatim>\<open>FindOpenPort\<close>\<close>

definition rangeStart :: int where
  "rangeStart = 49152"

definition rangeEnd :: int where
  "rangeEnd = 65535"

definition maxAttempts :: nat where
  "maxAttempts = 32"

text \<open>
  \<^verbatim>\<open>rand.Intn(n)\<close> returns a number of the half-open interval \<open>[0, n)\<close>: the draw of
  the generator reduced into that interval.
\<close>

definition rand_Intn :: "int \<Rightarrow> nat \<Rightarrow> int" where
  "rand_Intn n draw = int draw mod n"

definition attemptPort_start :: "nat \<Rightarrow> int" where
  "attemptPort_start draw = rangeStart + rand_Intn (rangeEnd - rangeStart) draw"

text \<open>The loop, with the number of attempts left and the port to try next.\<close>

fun FindOpenPort_loop :: "(int \<Rightarrow> bool) \<Rightarrow> nat \<Rightarrow> int \<Rightarrow> int \<times> error option" where
  "FindOpenPort_loop listen 0 attemptPort =
     (- 1, Some (Errorf ''could not find open port after 32 attempts''))"
| "FindOpenPort_loop listen (Suc n) attemptPort =
     (if listen attemptPort then (attemptPort, None)
      else FindOpenPort_loop listen n
             (if attemptPort + 1 > rangeEnd then rangeStart else attemptPort + 1))"

definition FindOpenPort :: "nat \<Rightarrow> (string \<Rightarrow> int \<Rightarrow> bool) \<Rightarrow> string \<Rightarrow> int \<times> error option" where
  "FindOpenPort draw listen ip = FindOpenPort_loop (listen ip) maxAttempts (attemptPort_start draw)"


section \<open>The resource ledger\<close>

text \<open>
  The three sections of \<^verbatim>\<open>LaunchContainer\<close> that touch \<^verbatim>\<open>TrackedResources\<close>: the
  admission check, run under the reader lock; the reservation, run under the writer
  lock taken afterwards; and the release of the deferred function. Sums and
  differences wrap around as Go's do, and comparisons are signed.
\<close>

definition admission_check :: "Resources \<Rightarrow> Server \<Rightarrow> error option" where
  "admission_check req s =
     (let tracked = TrackedResources s; limits = Limits (ResourcesCfg (Config s))
      in if sint (MilliCPU limits) < sint (MilliCPU tracked + MilliCPU req)
         then Some (Errorf ''not enough cpu resources to launch container'')
         else if sint (MemoryMi limits) < sint (MemoryMi tracked + MemoryMi req)
         then Some (Errorf ''not enough memory resources to launch container'')
         else if sint (GpuMemoryMi limits) < sint (GpuMemoryMi tracked + GpuMemoryMi req)
         then Some (Errorf ''not enough video memory resources to launch container'')
         else None)"

definition reserve :: "Resources \<Rightarrow> Server \<Rightarrow> Server" where
  "reserve req s =
     s\<lparr>TrackedResources :=
         \<lparr>MilliCPU = MilliCPU (TrackedResources s) + MilliCPU req,
          MemoryMi = MemoryMi (TrackedResources s) + MemoryMi req,
          GpuMemoryMi = GpuMemoryMi (TrackedResources s) + GpuMemoryMi req\<rparr>\<rparr>"

definition release :: "Resources \<Rightarrow> Server \<Rightarrow> Server" where
  "release req s =
     s\<lparr>TrackedResources :=
         \<lparr>MilliCPU = MilliCPU (TrackedResources s) - MilliCPU req,
          MemoryMi = MemoryMi (TrackedResources s) - MemoryMi req,
          GpuMemoryMi = GpuMemoryMi (TrackedResources s) - GpuMemoryMi req\<rparr>\<rparr>"

text \<open>Invariant R1 of the specification: the tracked total is within the limits.\<close>

definition within_limits :: "Server \<Rightarrow> bool" where
  "within_limits s =
     (let tracked = TrackedResources s; limits = Limits (ResourcesCfg (Config s))
      in sint (MilliCPU tracked) \<le> sint (MilliCPU limits)
         \<and> sint (MemoryMi tracked) \<le> sint (MemoryMi limits)
         \<and> sint (GpuMemoryMi tracked) \<le> sint (GpuMemoryMi limits))"

text \<open>
  Launches of different services run concurrently: the keyed mutex orders only the
  calls for one name. Each launch that has reached the ledger first runs the admission
  check and later, in a separate critical section, the reservation; between the two,
  sections of other launches may run. A launch is its request and the place it has
  reached; a schedule names, step by step, the launch that runs its next section.
\<close>

datatype ledger_pc = AtCheck | AtReserve | Reserved | Refused error

fun ledger_section :: "Resources \<times> ledger_pc \<Rightarrow> Server \<Rightarrow> (Resources \<times> ledger_pc) \<times> Server" where
  "ledger_section (req, AtCheck) s =
     (case admission_check req s of
        Some e \<Rightarrow> ((req, Refused e), s)
      | None \<Rightarrow> ((req, AtReserve), s))"
| "ledger_section (req, AtReserve) s = ((req, Reserved), reserve req s)"
| "ledger_section (req, Reserved) s = ((req, Reserved), s)"
| "ledger_section (req, Refused e) s = ((req, Refused e), s)"

fun ledger_run :: "nat list \<Rightarrow> (Resources \<times> ledger_pc) list \<Rightarrow> Server
    \<Rightarrow> (Resources \<times> ledger_pc) list \<times> Server" where
  "ledger_run [] launches s = (launches, s)"
| "ledger_run (i # sched) launches s =
     (if i < length launches
      then (case ledger_section (launches ! i) s of
              (l, s') \<Rightarrow> ledger_run sched (launches[i := l]) s')
      else ledger_run sched launches s)"


section \<open>The connection handler: the sections of \<^verbatim>\<open>HandleConnection\<close>\<close>

text \<open>The first reader section: is the connection count of the service positive?\<close>

definition containerActive :: "Service \<Rightarrow> Server \<Rightarrow> bool" where
  "containerActive app s =
     (case ServiceConnCount s (Name app) of
        None \<Rightarrow> False
      | Some c \<Rightarrow> 0 < c)"

text \<open>
  The writer section \<^verbatim>\<open>s.ServiceConnCount[app.Name]++\<close>: a missing key reads as
  \<open>0\<close>.
\<close>

definition conn_acquire :: "Service \<Rightarrow> Server \<Rightarrow> Server" where
  "conn_acquire app s =
     s\<lparr>ServiceConnCount := (ServiceConnCount s)
          (Name app \<mapsto> (case ServiceConnCount s (Name app) of None \<Rightarrow> 0 | Some c \<Rightarrow> c) + 1)\<rparr>"

text \<open>
  The deferred writer section, run when the connection ends: decrement, and at zero
  set the kill time to \<^verbatim>\<open>time.Now().Add(time.Duration(app.CoolDown) * time.Second)\<close>.
  After the decrement the key is present, so the test \<^verbatim>\<open>ok\<close> succeeds.
\<close>

definition conn_release :: "time \<Rightarrow> Service \<Rightarrow> Server \<Rightarrow> Server" where
  "conn_release now app s =
     (let c = (case ServiceConnCount s (Name app) of None \<Rightarrow> 0 | Some c \<Rightarrow> c) - 1;
          s1 = s\<lparr>ServiceConnCount := (ServiceConnCount s)(Name app \<mapsto> c)\<rparr>
      in if c = 0
         then s1\<lparr>ServiceKillTime := (ServiceKillTime s1)
                   (Name app \<mapsto> now + sint (CoolDown app * 1000000000))\<rparr>
         else s1)"



section \<open>Library functions the launch uses\<close>

text \<open>
  \<^verbatim>\<open>strings.ToLower\<close> on the ASCII letters; the pull policies are ASCII words.
\<close>

definition toLower_char :: "char \<Rightarrow> char" where
  "toLower_char c =
     (if 65 \<le> (of_char c :: nat) \<and> (of_char c :: nat) \<le> 90
      then char_of ((of_char c :: nat) + 32)
      else c)"

definition toLower :: "string \<Rightarrow> string" where
  "toLower str = map toLower_char str"

text \<open>
  \<^verbatim>\<open>strconv.Atoi\<close>: an optional sign, then one or more decimal digits, and a value
  that fits 64 bits; anything else is an error.
\<close>

definition is_digit :: "char \<Rightarrow> bool" where
  "is_digit c = (48 \<le> (of_char c :: nat) \<and> (of_char c :: nat) \<le> 57)"

definition digits_value :: "string \<Rightarrow> int" where
  "digits_value ds = foldl (\<lambda>n c. 10 * n + (int (of_char c) - 48)) 0 ds"

definition Atoi_digits :: "string \<Rightarrow> bool \<Rightarrow> string \<Rightarrow> error + int" where
  "Atoi_digits str neg ds =
     (if ds = [] then Inl (NumError str)
      else if list_all is_digit ds
      then (let n = (if neg then - digits_value ds else digits_value ds)
            in if n < - (2 ^ 63) then Inl (NumError str)
               else if 2 ^ 63 - 1 < n then Inl (NumError str)
               else Inr n)
      else Inl (NumError str))"

fun Atoi :: "string \<Rightarrow> error + int" where
  "Atoi [] = Inl (NumError [])"
| "Atoi (c # cs) =
     (if c = CHR ''-'' then Atoi_digits (c # cs) True cs
      else if c = CHR ''+'' then Atoi_digits (c # cs) False cs
      else Atoi_digits (c # cs) False (c # cs))"

text \<open>\<^verbatim>\<open>strings.Split(natport, "/")[0]\<close>: the text before the first slash.\<close>

definition port_of_key :: "string \<Rightarrow> string" where
  "port_of_key natport = takeWhile (\<lambda>c. c \<noteq> CHR ''/'') natport"


section \<open>\<^verbatim>\<open>LaunchContainer\<close>\<close>

definition containerName :: "string \<Rightarrow> string" where
  "containerName name = name @ ''-goscalezero''"

text \<open>The loop \<^verbatim>\<open>searchlist\<close>: the first listed container that bears the name.\<close>

fun searchlist :: "string \<Rightarrow> Container list \<Rightarrow> Container option" where
  "searchlist name [] = None"
| "searchlist name (listcont # list) =
     (if name \<in> set (c_Names listcont) then Some listcont else searchlist name list)"

text \<open>
  A container of another image is removed and counts as absent. The result is the
  error of the removal, if any, and the container to go on with.
\<close>

definition validate_container ::
  "env \<Rightarrow> Service \<Rightarrow> Container option \<Rightarrow> Server \<Rightarrow> error option \<times> Container option \<times> Server" where
  "validate_container env app cont s =
     (case cont of
        None \<Rightarrow> (None, None, s)
      | Some c \<Rightarrow>
          if c_Image c = Image app then (None, Some c, s)
          else (let s1 = record_call (ContainerRemove (c_ID c)) s
                in case containerRemove env of
                     Some e \<Rightarrow> (Some e, Some c, s1)
                   | None \<Rightarrow> (None, None, s1)))"

text \<open>
  The pull policy. An error of the pull or of the image listing is stored in
  \<^verbatim>\<open>err\<close> and logged, and the launch goes on; \<^verbatim>\<open>err\<close> is assigned again, by
  \<^verbatim>\<open>nat.NewPort\<close> or by \<^verbatim>\<open>ContainerCreate\<close>, before anything returns it. What is
  left of the stage is the calls it issues.
\<close>

definition pull_image :: "env \<Rightarrow> Service \<Rightarrow> Server \<Rightarrow> Server" where
  "pull_image env app s =
     (let policy = toLower (PullPolicy app)
      in if policy = ''always'' then record_call (ImagePull (Image app)) s
         else if policy = ''ifnotpresent''
         then (let s1 = record_call ImageList s
               in case imageList env of
                    Inl e \<Rightarrow> s1
                  | Inr images \<Rightarrow>
                      if Image app \<in> set (concat images) then s1
                      else record_call (ImagePull (Image app)) s1)
         else s)"

definition effective_hostIP :: "Service \<Rightarrow> Server \<Rightarrow> string" where
  "effective_hostIP app s =
     (if HostIP app \<noteq> [] then HostIP app else ServiceHostIP (Config s))"

text \<open>
  The loop over \<^verbatim>\<open>app.Ports\<close>, with the index of the port. Under the writer lock the
  entry of the service is created if missing, and the result of \<open>FindOpenPort\<close> is
  stored for the container port, also when it is the \<open>-1\<close> of a failure.
\<close>

fun allocate_ports ::
  "env \<Rightarrow> Service \<Rightarrow> string \<Rightarrow> nat \<Rightarrow> PortMapping list \<Rightarrow> Server \<Rightarrow> error option \<times> Server" where
  "allocate_ports env app hostIP k [] s = (None, s)"
| "allocate_ports env app hostIP k (port # ports) s =
     (case newPort env (ContainerPort port) of
        Some e \<Rightarrow> (Some e, s)
      | None \<Rightarrow>
          (let m = (case ServiceProxyHostPortMap s (Name app) of
                      None \<Rightarrow> Map.empty
                    | Some m \<Rightarrow> m);
               found = FindOpenPort (randInt env k) (netListen env k) hostIP;
               s1 = s\<lparr>ServiceProxyHostPortMap := (ServiceProxyHostPortMap s)
                        (Name app \<mapsto> m(ContainerPort port \<mapsto> fst found))\<rparr>
           in case snd found of
                Some e \<Rightarrow> (Some e, s1)
              | None \<Rightarrow> allocate_ports env app hostIP (Suc k) ports s1))"

text \<open>
  The readiness wait: at most \<open>100\<close> polls (ten seconds at 100 ms), with the number
  of polls left and the index of the poll. \<^verbatim>\<open>types.NoHealthcheck\<close> is \<open>''none''\<close>
  and \<^verbatim>\<open>types.Healthy\<close> is \<open>''healthy''\<close>.
\<close>

fun wait_ready :: "env \<Rightarrow> string \<Rightarrow> nat \<Rightarrow> nat \<Rightarrow> Server \<Rightarrow> error option \<times> Server" where
  "wait_ready env contID 0 i s = (Some (Errorf ''container did not start in time''), s)"
| "wait_ready env contID (Suc n) i s =
     (let s1 = record_call (ContainerInspect contID) s
      in case inspectReady env i of
           Inl e \<Rightarrow> (Some e, s1)
         | Inr cont \<Rightarrow>
             if j_Status cont \<noteq> ''running''
             then (Some (Errorf ''container is not running''), s1)
             else (let health = (case j_Health cont of None \<Rightarrow> ''none'' | Some h \<Rightarrow> h)
                   in if health = ''none''
                      then (if j_Running cont then (None, s1)
                            else wait_ready env contID n (Suc i) s1)
                      else if health = ''healthy'' then (None, s1)
                      else wait_ready env contID n (Suc i) s1))"

text \<open>Start the container and wait for it (from \<^verbatim>\<open>ContainerStart\<close> to the last line).\<close>

definition start_and_wait :: "env \<Rightarrow> string \<Rightarrow> Server \<Rightarrow> error option \<times> Server" where
  "start_and_wait env contID s =
     (let s1 = record_call (ContainerStart contID) s
      in case containerStart env of
           Some e \<Rightarrow> (Some e, s1)
         | None \<Rightarrow> wait_ready env contID 100 0 s1)"

text \<open>
  The deferred function registered after the reservation: it releases the request
  when \<^verbatim>\<open>err\<close> is not \<^verbatim>\<open>nil\<close> at the time it runs.
\<close>

definition release_deferred :: "Resources \<Rightarrow> error option \<times> Server \<Rightarrow> error option \<times> Server" where
  "release_deferred req r =
     (case fst r of
        Some e \<Rightarrow> (Some e, release req (snd r))
      | None \<Rightarrow> (None, snd r))"

text \<open>
  From the admission check to the end of the function body. A \<^verbatim>\<open>nil\<close> request
  panics at its first dereference. The deferred release runs as the body returns.
\<close>

definition admit_and_start :: "env \<Rightarrow> Service \<Rightarrow> string \<Rightarrow> Server \<Rightarrow> outcome \<times> string \<times> Server" where
  "admit_and_start env app contID s =
     (case ResourceRequest app of
        None \<Rightarrow> (Panicked (RuntimeError ''nil pointer dereference''), contID, s)
      | Some req \<Rightarrow>
          (case admission_check req s of
             Some e \<Rightarrow> (Returned (Some e), contID, s)
           | None \<Rightarrow>
               (case release_deferred req (start_and_wait env contID (reserve req s)) of
                  (err, s1) \<Rightarrow> (Returned err, contID, s1))))"

text \<open>
  The body between the registration of the first deferred function and the admission
  check: create the container when there is none, return at once when it runs
  already, go on with its id otherwise. The result carries \<^verbatim>\<open>contID\<close>, which the
  deferred function reads.
\<close>

definition launch_body :: "env \<Rightarrow> Service \<Rightarrow> Container option \<Rightarrow> Server \<Rightarrow> outcome \<times> string \<times> Server" where
  "launch_body env app cont s =
     (case cont of
        None \<Rightarrow>
          (case allocate_ports env app (effective_hostIP app s) 0 (Ports app) (pull_image env app s) of
             (Some e, s1) \<Rightarrow> (Returned (Some e), [], s1)
           | (None, s1) \<Rightarrow>
               (case ResourceRequest app of
                  None \<Rightarrow> (Panicked (RuntimeError ''nil pointer dereference''), [], s1)
                | Some req \<Rightarrow>
                    (let s2 = record_call (ContainerCreate (containerName (Name app))) s1
                     in case containerCreate env of
                          Inl e \<Rightarrow> (Returned (Some e), [], s2)
                        | Inr contID \<Rightarrow> admit_and_start env app contID s2)))
      | Some c \<Rightarrow>
          if c_State c = ''running'' then (Returned None, c_ID c, s)
          else admit_and_start env app (c_ID c) s)"

text \<open>
  The loop over the port bindings of the inspected container. An empty list of
  bindings makes \<^verbatim>\<open>bindings[0]\<close> panic.
\<close>

fun hydrate_ports :: "Service \<Rightarrow> (string \<times> PortBinding list) list \<Rightarrow> Server \<Rightarrow> outcome \<times> Server" where
  "hydrate_ports app [] s = (Returned None, s)"
| "hydrate_ports app ((natport, bindings) # rest) s =
     (case Atoi (port_of_key natport) of
        Inl e \<Rightarrow> (Returned (Some e), s)
      | Inr containerPort \<Rightarrow>
          (case bindings of
             [] \<Rightarrow> (Panicked (RuntimeError ''index out of range''), s)
           | b # bs \<Rightarrow>
               (case Atoi (pb_HostPort b) of
                  Inl e \<Rightarrow> (Returned (Some e), s)
                | Inr hostPort \<Rightarrow>
                    hydrate_ports app rest
                      (s\<lparr>ServiceProxyHostPortMap := (ServiceProxyHostPortMap s)
                           (Name app \<mapsto>
                              (case ServiceProxyHostPortMap s (Name app) of
                                 None \<Rightarrow> Map.empty
                               | Some m \<Rightarrow> m)(containerPort \<mapsto> hostPort))\<rparr>))))"

text \<open>
  The first deferred function (``store port mappings''), which runs last: nothing on
  an error; otherwise, when the service has no entry in the port map, inspect the
  container, create the entry and fill it. A panic ends the process: what the
  deferred functions do while it unwinds is not modelled.
\<close>

definition store_port_mappings :: "env \<Rightarrow> Service \<Rightarrow> outcome \<times> string \<times> Server \<Rightarrow> outcome \<times> Server" where
  "store_port_mappings env app r =
     (case r of
        (Panicked e, contID, s) \<Rightarrow> (Panicked e, s)
      | (Returned (Some e), contID, s) \<Rightarrow> (Returned (Some e), s)
      | (Returned None, contID, s) \<Rightarrow>
          (case ServiceProxyHostPortMap s (Name app) of
             Some m \<Rightarrow> (Returned None, s)
           | None \<Rightarrow>
               (let s1 = record_call (ContainerInspect contID) s
                in case inspectHydrate env of
                     Inl e \<Rightarrow> (Returned (Some e), s1)
                   | Inr inspect \<Rightarrow>
                       hydrate_ports app (j_PortBindings inspect)
                         (s1\<lparr>ServiceProxyHostPortMap :=
                               (ServiceProxyHostPortMap s1)(Name app \<mapsto> Map.empty)\<rparr>))))"

text \<open>
  The whole call. A failure to make the client panics. The deferred functions run in
  the reverse order of their registration: the release first (inside
  \<open>admit_and_start\<close>), the port mappings after it.
\<close>

definition LaunchContainer :: "env \<Rightarrow> Service \<Rightarrow> Server \<Rightarrow> outcome \<times> Server" where
  "LaunchContainer env app s =
     (case newClient env of
        Some e \<Rightarrow> (Panicked e, s)
      | None \<Rightarrow>
          (let name = ''/'' @ containerName (Name app);
               s1 = record_call (ContainerList name) s
           in case containerList env of
                Inl e \<Rightarrow> (Returned (Some e), s1)
              | Inr list \<Rightarrow>
                  (case validate_container env app (searchlist name list) s1 of
                     (Some e, cont, s2) \<Rightarrow> (Returned (Some e), s2)
                   | (None, cont, s2) \<Rightarrow>
                       store_port_mappings env app (launch_body env app cont s2))))"


section \<open>\<^verbatim>\<open>HandleConnection\<close>, from the accepted connection to the dial\<close>

text \<open>
  The handler launches the container unless the connection count is positive, gives
  up when the launch returns an error, and otherwise counts the connection. The port
  it then dials is \<open>backendHostPort\<close> in the state it has reached; when the connection
  ends, \<open>conn_release\<close> runs.
\<close>

definition HandleConnection_open :: "env \<Rightarrow> Service \<Rightarrow> Server \<Rightarrow> outcome \<times> Server" where
  "HandleConnection_open env app s =
     (if containerActive app s then (Returned None, conn_acquire app s)
      else (case LaunchContainer env app s of
              (Panicked e, s1) \<Rightarrow> (Panicked e, s1)
            | (Returned (Some e), s1) \<Rightarrow> (Returned (Some e), s1)
            | (Returned None, s1) \<Rightarrow> (Returned None, conn_acquire app s1)))"


section \<open>\<^verbatim>\<open>StopContainer\<close>\<close>

text \<open>The writer section at the head of the call: refuse while connections are live.\<close>

definition active_connections :: "string \<Rightarrow> Server \<Rightarrow> error option" where
  "active_connections name s =
     (case ServiceConnCount s name of
        None \<Rightarrow> None
      | Some c \<Rightarrow>
          if 0 < c then Some (Errorf ''container has active connections'') else None)"

text \<open>The first service of the configuration with the name.\<close>

fun find_service :: "string \<Rightarrow> Service list \<Rightarrow> Service option" where
  "find_service name [] = None"
| "find_service name (serv # servs) =
     (if Name serv = name then Some serv else find_service name servs)"

text \<open>The closing section: give the request of the service back to the ledger.\<close>

definition release_stopped :: "string \<Rightarrow> Server \<Rightarrow> outcome \<times> Server" where
  "release_stopped name s =
     (case find_service name (Services (Config s)) of
        None \<Rightarrow> (Returned None, s)
      | Some service \<Rightarrow>
          (case ResourceRequest service of
             None \<Rightarrow> (Panicked (RuntimeError ''nil pointer dereference''), s)
           | Some req \<Rightarrow> (Returned None, release req s)))"

text \<open>
  \<open>containerWait\<close> is what the \<^verbatim>\<open>select\<close> receives: an error from the error channel,
  or \<open>None\<close> for a \<^verbatim>\<open>nil\<close> error or an answer on the response channel.
\<close>

definition StopContainer :: "env \<Rightarrow> string \<Rightarrow> Server \<Rightarrow> outcome \<times> Server" where
  "StopContainer env name s =
     (case active_connections name s of
        Some e \<Rightarrow> (Returned (Some e), s)
      | None \<Rightarrow>
          (case newClient env of
             Some e \<Rightarrow> (Returned (Some e), s)
           | None \<Rightarrow>
               (let cname = ''/'' @ containerName name;
                    s1 = record_call (ContainerList cname) s
                in case containerList env of
                     Inl e \<Rightarrow> (Returned (Some e), s1)
                   | Inr list \<Rightarrow>
                       (case searchlist cname list of
                          None \<Rightarrow> (Returned (Some (Errorf ''container does not exist'')), s1)
                        | Some cont \<Rightarrow>
                            (let s2 = record_call (ContainerStop (c_ID cont)) s1
                             in case containerStop env of
                                  Some e \<Rightarrow> (Returned (Some e), s2)
                                | None \<Rightarrow>
                                    (let s3 = record_call (ContainerWait (c_ID cont)) s2
                                     in case containerWait env of
                                          Some e \<Rightarrow> (Returned (Some e), s3)
                                        | None \<Rightarrow> release_stopped name s3))))))"


section \<open>The reaper: one round of \<^verbatim>\<open>CleanUpContainers\<close>\<close>

text \<open>
  The reader section: \<open>keys\<close> are the keys of \<^verbatim>\<open>ServiceKillTime\<close> in the order in
  which the \<^verbatim>\<open>range\<close> loop visits them. \<^verbatim>\<open>time.Since(ts).Seconds() > 0\<close> holds
  when \<open>ts\<close> is before the reading \<open>now\<close> of the clock; a service without a
  connection count is logged and left.
\<close>

definition due :: "time \<Rightarrow> Server \<Rightarrow> string \<Rightarrow> bool" where
  "due now s container =
     (case ServiceKillTime s container of
        None \<Rightarrow> False
      | Some ts \<Rightarrow>
          if 0 < now - ts
          then (case ServiceConnCount s container of
                  None \<Rightarrow> False
                | Some c \<Rightarrow> c = 0)
          else False)"

definition toKill :: "time \<Rightarrow> string list \<Rightarrow> Server \<Rightarrow> string list" where
  "toKill now keys s = filter (due now s) keys"




section \<open>A configuration and environments to run the model on\<close>

text \<open>
  The two services of \<^verbatim>\<open>example_services.json\<close> and a third one with the request of
  the second.
\<close>

definition helloworld :: Service where
  "helloworld =
     \<lparr>Name = ''helloworld'',
      ResourceRequest = Some \<lparr>MilliCPU = 0, MemoryMi = 8, GpuMemoryMi = 0\<rparr>,
      CoolDown = 60,
      Ports = [\<lparr>ContainerPort = 80, HostPorts = [80]\<rparr>],
      Image = ''strm/helloworld-http:latest'',
      PullPolicy = ''ifnotpresent'',
      HostIP = []\<rparr>"

definition llama :: Service where
  "llama =
     \<lparr>Name = ''llama.cpp'',
      ResourceRequest = Some \<lparr>MilliCPU = 0, MemoryMi = 4000, GpuMemoryMi = 8000\<rparr>,
      CoolDown = 300,
      Ports = [\<lparr>ContainerPort = 8080, HostPorts = [8080]\<rparr>],
      Image = ''ghcr.io/ggerganov/llama.cpp:full-cuda'',
      PullPolicy = ''IfNotPresent'',
      HostIP = []\<rparr>"

definition diffusion :: Service where
  "diffusion =
     \<lparr>Name = ''diffusion'',
      ResourceRequest = Some \<lparr>MilliCPU = 0, MemoryMi = 4000, GpuMemoryMi = 8000\<rparr>,
      CoolDown = 300,
      Ports = [\<lparr>ContainerPort = 7860, HostPorts = [7860]\<rparr>],
      Image = ''diffusion:latest'',
      PullPolicy = ''never'',
      HostIP = []\<rparr>"

definition example_config :: ServicesConfig where
  "example_config =
     \<lparr>ProxyIP = ''0.0.0.0'',
      ServiceHostIP = ''0.0.0.0'',
      ResourcesCfg = \<lparr>Limits = \<lparr>MilliCPU = 4000, MemoryMi = 8000, GpuMemoryMi = 8000\<rparr>\<rparr>,
      Services = [helloworld, llama, diffusion]\<rparr>"

text \<open>An inspected container that runs and declares no health check.\<close>

definition running_json :: ContainerJSON where
  "running_json =
     \<lparr>j_Status = ''running'', j_Running = True, j_Health = None, j_PortBindings = []\<rparr>"

text \<open>
  An environment in which every request succeeds: no container and no image exist,
  every port is free, and the created container runs at the first poll.
\<close>

definition calm_env :: env where
  "calm_env =
     \<lparr>newClient = None,
      containerList = Inr [],
      containerRemove = None,
      imagePull = None,
      imageList = Inr [],
      newPort = (\<lambda>p. None),
      randInt = (\<lambda>k. 0),
      netListen = (\<lambda>k ip p. True),
      containerCreate = Inr ''c1'',
      containerStart = None,
      inspectReady = (\<lambda>i. Inr running_json),
      inspectHydrate = Inr running_json,
      containerStop = None,
      containerWait = None\<rparr>"

text \<open>The container of \<open>helloworld\<close>, as the runtime lists it in a given state.\<close>

definition helloworld_container :: "string \<Rightarrow> Container" where
  "helloworld_container state =
     \<lparr>c_ID = ''c0'',
      c_Names = [''/helloworld-goscalezero''],
      c_Image = ''strm/helloworld-http:latest'',
      c_State = state\<rparr>"

text \<open>
  The runtime lists the container of \<open>helloworld\<close>, stopped, and reports for it a
  binding of port 80 without a host port (a container made with a dynamic host port).
\<close>

definition stopped_unbound_env :: env where
  "stopped_unbound_env =
     calm_env
       \<lparr>containerList := Inr [helloworld_container ''exited''],
        inspectHydrate :=
          Inr (running_json\<lparr>j_PortBindings :=
                [(''80/tcp'', [\<lparr>pb_HostIP = [], pb_HostPort = []\<rparr>])]\<rparr>)\<rparr>"

text \<open>The runtime lists the container, running, and the inspection of it fails.\<close>

definition running_uninspectable_env :: env where
  "running_uninspectable_env =
     calm_env
       \<lparr>containerList := Inr [helloworld_container ''running''],
        inspectHydrate := Inl (DriverError ''inspect failed'')\<rparr>"

text \<open>The runtime lists the container, running, and reports no port binding for it.\<close>

definition running_unpublished_env :: env where
  "running_unpublished_env =
     calm_env\<lparr>containerList := Inr [helloworld_container ''running'']\<rparr>"


section \<open>Notions the statements below use\<close>

text \<open>
  The runtime can be reached and lists, for the service, a container of the
  configured image in state \<open>''running''\<close>.
\<close>

definition found_running :: "env \<Rightarrow> Service \<Rightarrow> bool" where
  "found_running env app =
     (case newClient env of
        Some e \<Rightarrow> False
      | None \<Rightarrow>
          (case containerList env of
             Inl e \<Rightarrow> False
           | Inr list \<Rightarrow>
               (case searchlist (''/'' @ containerName (Name app)) list of
                  None \<Rightarrow> False
                | Some c \<Rightarrow>
                    if c_Image c = Image app then c_State c = ''running'' else False)))"


text \<open>
  Calls of \<open>LaunchContainer\<close> for one service, one after the other, each in its own
  environment: what each call returned, and the state after the last. A panic ends
  the process and the sequence.
\<close>

fun LaunchContainer_seq :: "env list \<Rightarrow> Service \<Rightarrow> Server \<Rightarrow> outcome list \<times> Server" where
  "LaunchContainer_seq [] app s = ([], s)"
| "LaunchContainer_seq (env # envs) app s =
     (case LaunchContainer env app s of
        (Panicked e, s1) \<Rightarrow> ([Panicked e], s1)
      | (Returned err, s1) \<Rightarrow>
          (case LaunchContainer_seq envs app s1 of
             (outs, s2) \<Rightarrow> (Returned err # outs, s2)))"




section \<open>The keyed mutex registry: balanced calls leave no entry\<close>

lemma holders_pos: "1 \<le> holders c"
  unfolding holders_def
  by (simp add: word_neq_0_conv word_less_def)

lemma holders_inc: "holders (c + 1) \<le> holders c + 1"
proof -
  have b: "uint c < 2 ^ 64" using uint_lt2p [of c] by simp
  have n: "0 \<le> uint c" by simp
  have p: "uint (c + 1) = (if uint c + 1 < 2 ^ 64 then uint c + 1 else uint c + 1 - 2 ^ 64)"
    by (simp add: uint_plus_if_size word_size)
  show ?thesis
  proof (cases "c = 0")
    case True
    then show ?thesis by (simp add: holders_def)
  next
    case False
    show ?thesis
    proof (cases "c + 1 = 0")
      case True
      then have z: "uint (c + 1) = 0" by simp
      have "\<not> uint c + 1 < 2 ^ 64"
      proof
        assume "uint c + 1 < 2 ^ 64"
        with p z have "uint c + 1 = 0" by simp
        with n show False by arith
      qed
      with p z have "uint c + 1 = 2 ^ 64" by simp
      with True False show ?thesis by (simp add: holders_def)
    next
      case z: False
      then have "uint (c + 1) \<noteq> 0" by (simp add: uint_0_iff)
      with p b have "uint (c + 1) \<le> uint c + 1" by (simp split: if_splits)
      with z False show ?thesis by (simp add: holders_def)
    qed
  qed
qed

lemma holders_dec:
  assumes "0 < sint (c - 1)"
  shows "holders (c - 1) \<le> holders (c::go_int) - 1"
proof -
  have c0: "c \<noteq> 0" using assms by auto
  then have u: "1 \<le> uint c"
    by (metis holders_def holders_pos)
  have m: "uint (c - 1) = uint c - 1"
    using u by (simp add: uint_sub_if')
  have c1: "c - 1 \<noteq> 0" using assms by auto
  show ?thesis using c0 c1 m by (simp add: holders_def)
qed

lemma Lock_critical_inv:
  assumes "mm_inv mm key g"
  shows "mm_inv (Lock_critical k' mm) key (if k' = key then g + 1 else g)"
proof (cases "mutexmap mm key")
  case None
  with assms show ?thesis
    by (auto simp: mm_inv_def Lock_critical_def Let_def holders_def)
next
  case (Some e)
  with assms holders_inc [of "count e"] show ?thesis
    by (auto simp: mm_inv_def Lock_critical_def Let_def)
qed

lemma Unlock_critical_inv:
  assumes "Unlock_critical k' mm = Inr mm'" and "mm_inv mm key g"
  shows "mm_inv mm' key (if k' = key then g - 1 else g)"
proof (cases "mutexmap mm key")
  case None
  with assms show ?thesis
    by (auto simp: mm_inv_def Unlock_critical_def Let_def split: option.splits if_splits)
next
  case (Some e)
  with assms holders_dec [of "count e"] holders_pos [of "count e"] show ?thesis
    by (auto simp: mm_inv_def Unlock_critical_def Let_def split: option.splits if_splits)
qed

lemma mm_step_inv:
  assumes "mm_step c mm = Inr mm'" and "mm_inv mm key g"
  shows "mm_inv mm' key
     (g + (if c = LockCall key then 1 else 0) - (if c = UnlockCall key then 1 else 0))"
proof (cases c)
  case (LockCall k')
  with assms Lock_critical_inv [OF assms(2), of k'] show ?thesis by auto
next
  case (UnlockCall k')
  with assms have "Unlock_critical k' mm = Inr mm'" by simp
  from Unlock_critical_inv [OF this assms(2)] UnlockCall show ?thesis by auto
qed

lemma mm_run_inv:
  "mm_run cs mm = Inr mm' \<Longrightarrow> mm_inv mm key g \<Longrightarrow>
   mm_inv mm' key (g + int (count_list cs (LockCall key)) - int (count_list cs (UnlockCall key)))"
proof (induction cs arbitrary: mm g)
  case Nil
  then show ?case by simp
next
  case (Cons c cs)
  from Cons.prems(1) obtain m1 where s: "mm_step c mm = Inr m1" and r: "mm_run cs m1 = Inr mm'"
    by (auto split: sum.splits)
  let ?g1 = "g + (if c = LockCall key then 1 else 0) - (if c = UnlockCall key then 1 else 0)"
  have "mm_inv mm' key (?g1 + int (count_list cs (LockCall key)) - int (count_list cs (UnlockCall key)))"
    by (rule Cons.IH [OF r mm_step_inv [OF s Cons.prems(2)]])
  moreover have "?g1 + int (count_list cs (LockCall key)) - int (count_list cs (UnlockCall key))
     = g + int (count_list (c # cs) (LockCall key)) - int (count_list (c # cs) (UnlockCall key))"
    by auto
  ultimately show ?case by simp
qed

text \<open>
  Claim C9. Start from the empty registry and let any sequence of \<^verbatim>\<open>Lock\<close> and
  \<^verbatim>\<open>Unlock\<close> calls, on any keys, complete (none of them panics). If the calls for a
  key are balanced, as many \<^verbatim>\<open>Lock\<close> as \<^verbatim>\<open>Unlock\<close>, the map has no entry for that
  key. The count is decremented and the entry evicted inside the critical section of
  \<^verbatim>\<open>Unlock\<close>, which the call leaves before it releases the sub-lock: when the entry
  of a key counts one holder, the map that the critical section leaves has no entry
  for the key.
\<close>

theorem MutexMap_balanced_no_entry:
  assumes "mm_run cs NewMutexMap = Inr mm"
    and "count_list cs (LockCall key) = count_list cs (UnlockCall key)"
  shows "mutexmap mm key = None
     \<and> (mutexmap mm0 key = Some \<lparr>count = 1\<rparr>
          \<longrightarrow> Unlock_critical key mm0 = Inr (mm0\<lparr>mutexmap := (mutexmap mm0)(key := None)\<rparr>))"
proof -
  have "mm_inv (NewMutexMap :: 'a MutexMap) key 0"
    by (simp add: mm_inv_def NewMutexMap_def)
  from mm_run_inv [OF assms(1) this] assms(2) have "mm_inv mm key 0" by simp
  then have "mutexmap mm key = None"
    using holders_pos [of "count (the (mutexmap mm key))"]
    by (auto simp: mm_inv_def split: option.splits)
  then show ?thesis by (simp add: Unlock_critical_def)
qed

theorem MutexMap_balanced_no_entry_witness:
  "mm_run [LockCall ''a'', LockCall ''b'', LockCall ''a'', UnlockCall ''a'', UnlockCall ''a'']
      NewMutexMap = Inr \<lparr>mutexmap = [''b'' \<mapsto> \<lparr>count = 1\<rparr>]\<rparr>
   \<and> count_list [LockCall ''a'', LockCall ''b'', LockCall ''a'', UnlockCall ''a'', UnlockCall ''a'']
        (LockCall ''a'')
     = count_list [LockCall ''a'', LockCall ''b'', LockCall ''a'', UnlockCall ''a'', UnlockCall ''a'']
        (UnlockCall ''a'')
   \<and> mutexmap \<lparr>mutexmap = [''b'' \<mapsto> \<lparr>count = 1\<rparr>]\<rparr> ''a'' = None
   \<and> mutexmap \<lparr>mutexmap = [''b'' \<mapsto> \<lparr>count = 1\<rparr>]\<rparr> ''b'' = Some \<lparr>count = 1\<rparr>
   \<and> mutexmap (Lock_critical ''a'' NewMutexMap) ''a'' = Some \<lparr>count = 1\<rparr>
   \<and> Unlock_critical ''a'' (Lock_critical ''a'' NewMutexMap)
       = Inr ((Lock_critical ''a'' NewMutexMap)
                \<lparr>mutexmap := (mutexmap (Lock_critical ''a'' NewMutexMap))(''a'' := None)\<rparr>)"
proof -
  let ?cs = "[LockCall ''a'', LockCall ''b'', LockCall ''a'', UnlockCall ''a'', UnlockCall ''a'']"
  let ?mm = "\<lparr>mutexmap = [''b'' \<mapsto> \<lparr>count = 1\<rparr>]\<rparr>"
  let ?m1 = "Lock_critical ''a'' (NewMutexMap :: string MutexMap)"
  have r: "mm_run ?cs NewMutexMap = Inr ?mm"
    by (simp add: NewMutexMap_def Lock_critical_def Unlock_critical_def Let_def fun_upd_twist)
  have b: "count_list ?cs (LockCall ''a'') = count_list ?cs (UnlockCall ''a'')"
    by simp
  have c: "mutexmap ?m1 ''a'' = Some \<lparr>count = 1\<rparr>"
    by (simp add: NewMutexMap_def Lock_critical_def)
  note th = MutexMap_balanced_no_entry [OF r b, of ?m1]
  note t1 = th [THEN conjunct1]
  note t2 = th [THEN conjunct2, THEN mp, OF c]
  from r b c t1 t2 show ?thesis by simp
qed


section \<open>What the stages leave alone\<close>

lemma record_call_fields:
  "Config (record_call c s) = Config s"
  "ServiceProxyHostPortMap (record_call c s) = ServiceProxyHostPortMap s"
  "ServiceConnCount (record_call c s) = ServiceConnCount s"
  "ServiceKillTime (record_call c s) = ServiceKillTime s"
  "TrackedResources (record_call c s) = TrackedResources s"
  by (simp_all add: record_call_def)

lemma release_fields:
  "Config (release req s) = Config s"
  "ServiceProxyHostPortMap (release req s) = ServiceProxyHostPortMap s"
  "ServiceConnCount (release req s) = ServiceConnCount s"
  "ServiceKillTime (release req s) = ServiceKillTime s"
  by (simp_all add: release_def)

lemma reserve_fields:
  "Config (reserve req s) = Config s"
  "ServiceProxyHostPortMap (reserve req s) = ServiceProxyHostPortMap s"
  "ServiceConnCount (reserve req s) = ServiceConnCount s"
  "ServiceKillTime (reserve req s) = ServiceKillTime s"
  by (simp_all add: reserve_def)

declare record_call_fields [simp] release_fields [simp] reserve_fields [simp]


section \<open>The resource ledger under concurrent launches\<close>

text \<open>
  Run without interruption, the admission check followed by the reservation keeps the
  tracked total within the limits.
\<close>

lemma reserve_after_check_within_limits:
  "admission_check req s = None \<Longrightarrow> within_limits (reserve req s)"
  by (auto simp: admission_check_def within_limits_def reserve_def Let_def split: if_splits)

text \<open>
  Claim C1 says that the tracked total never exceeds the limits, because check and
  commit are one atomic step. In the code they are two critical sections. With the
  limits of the example configuration and nothing tracked, two launches that each ask
  for 8000 Mi of GPU memory both pass the check before either reserves, and both
  reserve: the total, within the limits at the start, is 16000 Mi against a limit of
  8000 Mi.
\<close>

theorem ledger_split_check_exceeds_limits:
  "within_limits (new_Server example_config)
   \<and> \<not> within_limits
         (snd (ledger_run [0, 1, 0, 1]
                 [(\<lparr>MilliCPU = 0, MemoryMi = 4000, GpuMemoryMi = 8000\<rparr>, AtCheck),
                  (\<lparr>MilliCPU = 0, MemoryMi = 4000, GpuMemoryMi = 8000\<rparr>, AtCheck)]
                 (new_Server example_config)))"
  by (simp add: within_limits_def new_Server_def example_config_def admission_check_def
      reserve_def Let_def)


section \<open>Acquiring a connection\<close>

lemma due_needs_zero_count:
  "containerActive app s \<Longrightarrow> \<not> due now s (Name app)"
  by (auto simp: containerActive_def due_def split: option.splits)

text \<open>
  Claim C2, as stated, fails: the acquire section does not clear the kill time. On a
  fresh server a first connection to \<open>helloworld\<close> launches the container and is
  counted; it ends at instant 100, which arms the kill time, 60 s later. A second
  connection finds the container running and is counted: the count is one and the
  kill time is still armed.
\<close>

theorem acquire_keeps_killTime_armed:
  "ServiceConnCount
     (snd (HandleConnection_open running_unpublished_env helloworld
        (conn_release 100 helloworld
           (snd (HandleConnection_open calm_env helloworld (new_Server example_config))))))
     ''helloworld'' = Some 1
   \<and> ServiceKillTime
     (snd (HandleConnection_open running_unpublished_env helloworld
        (conn_release 100 helloworld
           (snd (HandleConnection_open calm_env helloworld (new_Server example_config))))))
     ''helloworld'' = Some 60000000100"
  by (simp add: HandleConnection_open_def containerActive_def conn_acquire_def conn_release_def
      running_unpublished_env_def helloworld_container_def
      LaunchContainer_def calm_env_def
      helloworld_def new_Server_def example_config_def containerName_def
      validate_container_def launch_body_def record_call_def store_port_mappings_def
      running_json_def Let_def pull_image_def toLower_def toLower_char_def
      effective_hostIP_def FindOpenPort_def attemptPort_start_def rand_Intn_def maxAttempts_def
      rangeStart_def rangeEnd_def admit_and_start_def admission_check_def reserve_def
      release_deferred_def start_and_wait_def numeral_nat)

text \<open>
  Claim C2, amended. On every acquire the writer section increments the connection
  count of the service and leaves every kill time as it is. An armed kill time has no
  effect while the count is positive: the reaper does not select the service, and
  \<open>StopContainer\<close> refuses it and changes nothing.
\<close>

theorem conn_acquire_increments_keeps_killTime:
  "ServiceConnCount (conn_acquire app s) (Name app)
     = Some ((case ServiceConnCount s (Name app) of None \<Rightarrow> 0 | Some c \<Rightarrow> c) + 1)
   \<and> ServiceKillTime (conn_acquire app s) = ServiceKillTime s
   \<and> (containerActive app s'
        \<longrightarrow> Name app \<notin> set (toKill now keys s')
            \<and> StopContainer env (Name app) s'
                = (Returned (Some (Errorf ''container has active connections'')), s'))"
  using due_needs_zero_count [of app s' now]
  by (auto simp: conn_acquire_def toKill_def StopContainer_def active_connections_def
      containerActive_def split: option.splits)

text \<open>
  The amended claim for a second acquire after a connection that ended at instant
  100, with the reaper looking one nanosecond after the kill time.
\<close>

theorem conn_acquire_increments_keeps_killTime_witness:
  "ServiceConnCount
     (conn_acquire helloworld
        (conn_release 100 helloworld (conn_acquire helloworld (new_Server example_config))))
     ''helloworld'' = Some 1
   \<and> ServiceKillTime
       (conn_acquire helloworld
          (conn_release 100 helloworld (conn_acquire helloworld (new_Server example_config))))
      = ServiceKillTime
          (conn_release 100 helloworld (conn_acquire helloworld (new_Server example_config)))
   \<and> containerActive helloworld
       (conn_acquire helloworld
          (conn_release 100 helloworld (conn_acquire helloworld (new_Server example_config))))
   \<and> ''helloworld'' \<notin> set (toKill 60000000101 [''helloworld'']
       (conn_acquire helloworld
          (conn_release 100 helloworld (conn_acquire helloworld (new_Server example_config)))))
   \<and> fst (StopContainer calm_env ''helloworld''
       (conn_acquire helloworld
          (conn_release 100 helloworld (conn_acquire helloworld (new_Server example_config)))))
      = Returned (Some (Errorf ''container has active connections''))"
proof -
  let ?s = "conn_release 100 helloworld (conn_acquire helloworld (new_Server example_config))"
  let ?s' = "conn_acquire helloworld ?s"
  have n: "Name helloworld = ''helloworld''" by (simp add: helloworld_def)
  have c: "ServiceConnCount ?s ''helloworld'' = Some 0"
    by (simp add: conn_acquire_def conn_release_def new_Server_def helloworld_def Let_def)
  have a: "containerActive helloworld ?s'"
    using c by (simp add: containerActive_def conn_acquire_def n)
  from conn_acquire_increments_keeps_killTime
         [of helloworld ?s ?s' "60000000101" "[''helloworld'']" calm_env] a c n
  show ?thesis by simp
qed


section \<open>Stopping a service with live connections\<close>




section \<open>A runtime client that cannot be made\<close>

text \<open>
  Claim C10. When the client of the container runtime cannot be constructed,
  \<open>LaunchContainer\<close> panics with the error, whereas \<open>StopContainer\<close>, for a service
  without live connections, returns the same error to its caller.
\<close>

theorem client_failure_panics_launch_not_stop:
  assumes "newClient env = Some e"
  shows "LaunchContainer env app s = (Panicked e, s)
     \<and> (active_connections (Name app) s = None
          \<longrightarrow> StopContainer env (Name app) s = (Returned (Some e), s))"
  using assms by (simp add: LaunchContainer_def StopContainer_def)

theorem client_failure_panics_launch_not_stop_witness:
  "newClient (calm_env\<lparr>newClient := Some (DriverError ''no daemon'')\<rparr>)
     = Some (DriverError ''no daemon'')
   \<and> active_connections (Name helloworld) (new_Server example_config) = None
   \<and> LaunchContainer (calm_env\<lparr>newClient := Some (DriverError ''no daemon'')\<rparr>) helloworld
        (new_Server example_config)
       = (Panicked (DriverError ''no daemon''), new_Server example_config)
   \<and> StopContainer (calm_env\<lparr>newClient := Some (DriverError ''no daemon'')\<rparr>) (Name helloworld)
        (new_Server example_config)
       = (Returned (Some (DriverError ''no daemon'')), new_Server example_config)"
proof -
  let ?env = "calm_env\<lparr>newClient := Some (DriverError ''no daemon'')\<rparr>"
  have a: "newClient ?env = Some (DriverError ''no daemon'')" by simp
  have b: "active_connections (Name helloworld) (new_Server example_config) = None"
    by (simp add: active_connections_def new_Server_def)
  from client_failure_panics_launch_not_stop [OF a, of helloworld "new_Server example_config"] a b
  show ?thesis by simp
qed


section \<open>The ledger when a launch fails\<close>

lemma pull_image_tracked:
  "TrackedResources (pull_image env app s) = TrackedResources s"
  by (auto simp: pull_image_def Let_def split: sum.splits)

lemma allocate_ports_tracked:
  "TrackedResources (snd (allocate_ports env app ip k ports s)) = TrackedResources s"
  by (induction ports arbitrary: s k) (auto simp: Let_def split: option.splits)

lemma wait_ready_tracked:
  "TrackedResources (snd (wait_ready env contID n i s)) = TrackedResources s"
  by (induction n arbitrary: i s) (auto simp: Let_def split: sum.splits option.splits)

lemma start_and_wait_tracked:
  "TrackedResources (snd (start_and_wait env contID s)) = TrackedResources s"
  by (auto simp: start_and_wait_def Let_def wait_ready_tracked split: option.splits)

lemma release_reserve_tracked:
  "TrackedResources s1 = TrackedResources (reserve req s) \<Longrightarrow>
   TrackedResources (release req s1) = TrackedResources s"
  by (simp add: release_def reserve_def)

lemma admit_and_start_error_tracked:
  assumes "fst (admit_and_start env app contID s) = Returned (Some e)"
  shows "TrackedResources (snd (snd (admit_and_start env app contID s))) = TrackedResources s"
proof (cases "ResourceRequest app")
  case None
  with assms show ?thesis by (simp add: admit_and_start_def)
next
  case (Some req)
  show ?thesis
  proof (cases "admission_check req s")
    case (Some e')
    with \<open>ResourceRequest app = Some req\<close> show ?thesis by (simp add: admit_and_start_def)
  next
    case None
    obtain err s1 where sw: "start_and_wait env contID (reserve req s) = (err, s1)" by force
    from start_and_wait_tracked [of env contID "reserve req s"] sw
    have t: "TrackedResources s1 = TrackedResources (reserve req s)" by simp
    from assms None \<open>ResourceRequest app = Some req\<close> sw have "err = Some e"
      by (cases err) (auto simp: admit_and_start_def release_deferred_def)
    with None \<open>ResourceRequest app = Some req\<close> sw release_reserve_tracked [OF t]
    show ?thesis by (simp add: admit_and_start_def release_deferred_def)
  qed
qed

text \<open>
  Every error the body of \<open>LaunchContainer\<close> returns leaves the tracked resources as
  the body found them: the reservation was not taken, or the deferred release gave it
  back.
\<close>

lemma launch_body_error_tracked:
  assumes "fst (launch_body env app cont s) = Returned (Some e)"
  shows "TrackedResources (snd (snd (launch_body env app cont s))) = TrackedResources s"
proof (cases cont)
  case None
  let ?a = "allocate_ports env app (effective_hostIP app s) 0 (Ports app) (pull_image env app s)"
  obtain err s1 where a: "?a = (err, s1)" by force
  from allocate_ports_tracked [of env app "effective_hostIP app s" 0 "Ports app" "pull_image env app s"] a
  have t: "TrackedResources s1 = TrackedResources s" by (simp add: pull_image_tracked)
  show ?thesis
  proof (cases err)
    case (Some e')
    with None a t show ?thesis by (simp add: launch_body_def)
  next
    case ne: None
    show ?thesis
    proof (cases "ResourceRequest app")
      case None
      with \<open>cont = None\<close> a ne t show ?thesis by (simp add: launch_body_def)
    next
      case (Some req)
      let ?s2 = "record_call (ContainerCreate (containerName (Name app))) s1"
      show ?thesis
      proof (cases "containerCreate env")
        case (Inl e')
        with \<open>cont = None\<close> a ne Some t show ?thesis by (simp add: launch_body_def Let_def)
      next
        case (Inr contID)
        with \<open>cont = None\<close> a ne Some
        have b: "launch_body env app cont s = admit_and_start env app contID ?s2"
          by (simp add: launch_body_def Let_def)
        from admit_and_start_error_tracked [of env app contID ?s2 e] assms b t
        show ?thesis by simp
      qed
    qed
  qed
next
  case (Some c)
  show ?thesis
  proof (cases "c_State c = ''running''")
    case True
    with Some show ?thesis by (simp add: launch_body_def)
  next
    case False
    with Some have b: "launch_body env app cont s = admit_and_start env app (c_ID c) s"
      by (simp add: launch_body_def)
    from admit_and_start_error_tracked [of env app "c_ID c" s e] assms b show ?thesis by simp
  qed
qed

text \<open>
  Claim C3 says that \<open>LaunchContainer\<close>, whenever it returns an error, leaves the
  tracked resources at their value at entry. The deferred function that stores the
  port mappings runs after the deferred release, and an error it sets is returned with
  the reservation in place. Here the container of \<open>helloworld\<close> exists, stopped, with a
  binding of port 80 that names no host port: the request is admitted and reserved,
  the container starts and is ready, the hydration fails to parse the host port, and
  the call returns that error with 8 Mi of memory still tracked.
\<close>

theorem launch_error_keeps_reservation:
  "fst (LaunchContainer stopped_unbound_env helloworld (new_Server example_config))
     = Returned (Some (NumError []))
   \<and> TrackedResources (new_Server example_config)
       = \<lparr>MilliCPU = 0, MemoryMi = 0, GpuMemoryMi = 0\<rparr>
   \<and> TrackedResources
         (snd (LaunchContainer stopped_unbound_env helloworld (new_Server example_config)))
       = \<lparr>MilliCPU = 0, MemoryMi = 8, GpuMemoryMi = 0\<rparr>"
  by (simp add: LaunchContainer_def stopped_unbound_env_def calm_env_def helloworld_def
      new_Server_def example_config_def helloworld_container_def containerName_def
      validate_container_def launch_body_def admit_and_start_def admission_check_def
      reserve_def release_def release_deferred_def start_and_wait_def record_call_def
      store_port_mappings_def running_json_def port_of_key_def Atoi_digits_def
      is_digit_def digits_value_def Let_def numeral_nat)


section \<open>Launching a service whose container runs already\<close>

lemma hydrate_ports_tracked:
  "TrackedResources (snd (hydrate_ports app bs s)) = TrackedResources s"
  by (induction app bs s rule: hydrate_ports.induct)
     (auto split: sum.splits list.splits)

lemma hydrate_ports_entry:
  "ServiceProxyHostPortMap s (Name app) \<noteq> None \<Longrightarrow>
   ServiceProxyHostPortMap (snd (hydrate_ports app bs s)) (Name app) \<noteq> None"
  by (induction app bs s rule: hydrate_ports.induct)
     (auto split: sum.splits list.splits)

lemma store_port_mappings_tracked:
  "TrackedResources (snd (store_port_mappings env app (out, contID, s))) = TrackedResources s"
  by (auto simp: store_port_mappings_def Let_def hydrate_ports_tracked
      split: outcome.splits option.splits sum.splits)

lemma store_port_mappings_present:
  "ServiceProxyHostPortMap s (Name app) \<noteq> None \<Longrightarrow>
   store_port_mappings env app (out, contID, s) = (out, s)"
  by (auto simp: store_port_mappings_def split: outcome.splits option.splits)

lemma store_port_mappings_success_entry:
  "fst (store_port_mappings env app (out, contID, s)) = Returned None \<Longrightarrow>
   ServiceProxyHostPortMap (snd (store_port_mappings env app (out, contID, s))) (Name app) \<noteq> None"
  using hydrate_ports_entry
  by (auto simp: store_port_mappings_def Let_def
      split: outcome.splits option.splits sum.splits)

lemma LaunchContainer_found_running:
  assumes "found_running env app"
  shows "\<exists>contID. LaunchContainer env app s
     = store_port_mappings env app
         (Returned None, contID, record_call (ContainerList (''/'' @ containerName (Name app))) s)"
proof -
  from assms obtain list c where
    n: "newClient env = None" and l: "containerList env = Inr list"
    and f: "searchlist (''/'' @ containerName (Name app)) list = Some c"
    and i: "c_Image c = Image app" and r: "c_State c = ''running''"
    by (auto simp: found_running_def split: option.splits sum.splits if_splits)
  have "LaunchContainer env app s
     = store_port_mappings env app
         (Returned None, c_ID c, record_call (ContainerList (''/'' @ containerName (Name app))) s)"
    using n l f i r
    by (simp add: LaunchContainer_def validate_container_def launch_body_def Let_def)
  then show ?thesis by (rule exI [of _ "c_ID c"])
qed

lemma LaunchContainer_running_tracked:
  assumes "found_running env app"
  shows "TrackedResources (snd (LaunchContainer env app s)) = TrackedResources s"
proof -
  from LaunchContainer_found_running [OF assms, of s] obtain contID where
    "LaunchContainer env app s = store_port_mappings env app
         (Returned None, contID, record_call (ContainerList (''/'' @ containerName (Name app))) s)"
    by blast
  then show ?thesis by (simp add: store_port_mappings_tracked)
qed

lemma LaunchContainer_running_success:
  assumes "found_running env app" and "ServiceProxyHostPortMap s (Name app) \<noteq> None"
  shows "LaunchContainer env app s
     = (Returned None, record_call (ContainerList (''/'' @ containerName (Name app))) s)"
proof -
  from LaunchContainer_found_running [OF assms(1), of s] obtain contID where
    "LaunchContainer env app s = store_port_mappings env app
         (Returned None, contID, record_call (ContainerList (''/'' @ containerName (Name app))) s)"
    by blast
  with assms(2) show ?thesis by (simp add: store_port_mappings_present)
qed

lemma LaunchContainer_success_entry:
  assumes "fst (LaunchContainer env app s) = Returned None"
  shows "ServiceProxyHostPortMap (snd (LaunchContainer env app s)) (Name app) \<noteq> None"
proof -
  let ?name = "''/'' @ containerName (Name app)"
  let ?s1 = "record_call (ContainerList ?name) s"
  from assms have nc: "newClient env = None"
    by (cases "newClient env") (auto simp: LaunchContainer_def)
  from assms nc obtain list where l: "containerList env = Inr list"
    by (cases "containerList env") (auto simp: LaunchContainer_def Let_def)
  obtain verr cont s2 where
    v: "validate_container env app (searchlist ?name list) ?s1 = (verr, cont, s2)"
    by (metis prod.collapse)
  from assms nc l v have ve: "verr = None"
    by (cases verr) (auto simp: LaunchContainer_def Let_def)
  obtain out contID s3 where b: "launch_body env app cont s2 = (out, contID, s3)"
    by (metis prod.collapse)
  have L: "LaunchContainer env app s = store_port_mappings env app (out, contID, s3)"
    using nc l v ve b by (simp add: LaunchContainer_def Let_def)
  from assms L have "fst (store_port_mappings env app (out, contID, s3)) = Returned None"
    by simp
  from store_port_mappings_success_entry [OF this] show ?thesis
    unfolding L .
qed

lemma LaunchContainer_seq_running_tracked:
  "list_all (\<lambda>env. found_running env app) envs \<Longrightarrow>
   TrackedResources (snd (LaunchContainer_seq envs app s)) = TrackedResources s"
proof (induction envs arbitrary: s)
  case Nil
  then show ?case by simp
next
  case (Cons env envs)
  from Cons.prems have r: "found_running env app"
    and rs: "list_all (\<lambda>env. found_running env app) envs" by simp_all
  obtain out s1 where l: "LaunchContainer env app s = (out, s1)" by force
  from LaunchContainer_running_tracked [OF r, of s] l
  have t: "TrackedResources s1 = TrackedResources s" by simp
  show ?case
  proof (cases out)
    case (Panicked e)
    with l t show ?thesis by simp
  next
    case (Returned err)
    with l t Cons.IH [OF rs, of s1] show ?thesis by (auto split: prod.splits)
  qed
qed

lemma LaunchContainer_seq_running_success:
  "list_all (\<lambda>env. found_running env app) envs \<Longrightarrow>
   ServiceProxyHostPortMap s (Name app) \<noteq> None \<Longrightarrow>
   LaunchContainer_seq envs app s
     = (replicate (length envs) (Returned None),
        s\<lparr>Trace := Trace s
             @ replicate (length envs) (ContainerList (''/'' @ containerName (Name app)))\<rparr>)"
proof (induction envs arbitrary: s)
  case Nil
  then show ?case by simp
next
  case (Cons env envs)
  let ?c = "ContainerList (''/'' @ containerName (Name app))"
  from Cons.prems have r: "found_running env app"
    and rs: "list_all (\<lambda>env. found_running env app) envs" by simp_all
  have l: "LaunchContainer env app s = (Returned None, record_call ?c s)"
    by (rule LaunchContainer_running_success [OF r Cons.prems(2)])
  have m: "ServiceProxyHostPortMap (record_call ?c s) (Name app) \<noteq> None"
    using Cons.prems(2) by simp
  have "(record_call ?c s)\<lparr>Trace := Trace (record_call ?c s) @ replicate (length envs) ?c\<rparr>
      = s\<lparr>Trace := Trace s @ replicate (length (env # envs)) ?c\<rparr>"
    by (simp add: record_call_def)
  with Cons.IH [OF rs m] l show ?case by simp
qed

text \<open>
  Claim C4, as stated, fails: with the container found running, the call does not
  always return success. When the service has no entry in the port map, the deferred
  function inspects the container, and the error of that inspection is what the call
  returns.
\<close>

theorem running_launch_can_fail:
  "found_running running_uninspectable_env helloworld
   \<and> fst (LaunchContainer running_uninspectable_env helloworld (new_Server example_config))
       = Returned (Some (DriverError ''inspect failed''))"
  by (simp add: found_running_def LaunchContainer_def running_uninspectable_env_def calm_env_def
      helloworld_def new_Server_def helloworld_container_def containerName_def
      validate_container_def launch_body_def record_call_def store_port_mappings_def Let_def)

text \<open>
  Claim C4, amended. While the runtime reports the container of the service running,
  with the configured image, any number of calls of \<open>LaunchContainer\<close>, one after the
  other and from any state, leave the tracked resources unchanged. After a first
  successful call each of them returns success at once: the state after them is the
  state after the first call, with one more listing recorded for each call and no
  other call to the runtime. (Before any successful call, while the service has no
  entry in the port map, such a call can return the error of the hydration.)
\<close>

theorem LaunchContainer_running_keeps_ledger:
  assumes "list_all (\<lambda>env. found_running env app) envs"
  shows "TrackedResources (snd (LaunchContainer_seq envs app s)) = TrackedResources s
     \<and> (fst (LaunchContainer env0 app s0) = Returned None
          \<longrightarrow> LaunchContainer_seq envs app (snd (LaunchContainer env0 app s0))
              = (replicate (length envs) (Returned None),
                 (snd (LaunchContainer env0 app s0))
                   \<lparr>Trace := Trace (snd (LaunchContainer env0 app s0))
                      @ replicate (length envs)
                          (ContainerList (''/'' @ containerName (Name app)))\<rparr>))"
  using LaunchContainer_seq_running_tracked [OF assms, of s]
    LaunchContainer_seq_running_success [OF assms LaunchContainer_success_entry, of env0 s0]
  by simp

text \<open>
  The amended claim after the first launch of \<open>helloworld\<close> on a fresh server,
  followed by two calls that find the container running.
\<close>

theorem LaunchContainer_running_keeps_ledger_witness:
  "list_all (\<lambda>env. found_running env helloworld)
     [running_unpublished_env, running_uninspectable_env]
   \<and> fst (LaunchContainer calm_env helloworld (new_Server example_config)) = Returned None
   \<and> fst (LaunchContainer_seq [running_unpublished_env, running_uninspectable_env] helloworld
            (snd (LaunchContainer calm_env helloworld (new_Server example_config))))
      = [Returned None, Returned None]
   \<and> TrackedResources
       (snd (LaunchContainer_seq [running_unpublished_env, running_uninspectable_env] helloworld
               (snd (LaunchContainer calm_env helloworld (new_Server example_config)))))
      = TrackedResources (snd (LaunchContainer calm_env helloworld (new_Server example_config)))"
proof -
  let ?envs = "[running_unpublished_env, running_uninspectable_env]"
  let ?s = "snd (LaunchContainer calm_env helloworld (new_Server example_config))"
  have a: "list_all (\<lambda>env. found_running env helloworld) ?envs"
    by (simp add: found_running_def running_unpublished_env_def running_uninspectable_env_def
        calm_env_def helloworld_def helloworld_container_def containerName_def)
  have b: "fst (LaunchContainer calm_env helloworld (new_Server example_config)) = Returned None"
    by (simp add: LaunchContainer_def calm_env_def
      helloworld_def new_Server_def example_config_def containerName_def
      validate_container_def launch_body_def record_call_def store_port_mappings_def
      running_json_def Let_def pull_image_def toLower_def toLower_char_def
      effective_hostIP_def FindOpenPort_def attemptPort_start_def rand_Intn_def maxAttempts_def
      rangeStart_def rangeEnd_def admit_and_start_def admission_check_def reserve_def
      release_deferred_def start_and_wait_def numeral_nat)
  note th = LaunchContainer_running_keeps_ledger
              [OF a, of ?s calm_env "new_Server example_config"]
  note t1 = th [THEN conjunct1]
  note t2 = th [THEN conjunct2, THEN mp, OF b]
  have "fst (LaunchContainer_seq ?envs helloworld ?s) = [Returned None, Returned None]"
    unfolding t2 by (simp add: numeral_2_eq_2)
  with a b t1 show ?thesis by simp
qed


section \<open>The reaper\<close>












section \<open>The port map after a successful launch\<close>


lemma FindOpenPort_loop_exhausted:
  "(\<forall>p. \<not> listen p) \<Longrightarrow> \<exists>e. FindOpenPort_loop listen n p = (- 1, Some e)"
  by (induction n arbitrary: p) auto







lemma pull_image_portmap:
  "ServiceProxyHostPortMap (pull_image env app s) = ServiceProxyHostPortMap s"
  by (auto simp: pull_image_def Let_def split: sum.splits)










section \<open>The first port \<open>FindOpenPort\<close> tries\<close>

text \<open>
  Claim C8 says that the starting port is drawn uniformly from the range 49152 to
  65535. The draw is \<^verbatim>\<open>rand.Intn(rangeEnd - rangeStart)\<close>, a number below 16383, so
  the starting port is never \<open>rangeEnd\<close>, 65535, although the loop treats that port as
  the last of the range when it wraps around.
\<close>

theorem attemptPort_start_never_rangeEnd: "attemptPort_start draw \<noteq> rangeEnd"
  by (simp add: attemptPort_start_def rand_Intn_def rangeStart_def rangeEnd_def)

end
